theory Spec2Isabelle
  imports Main
begin

section \<open>JavaScript values, strings and the process environment\<close>

text \<open>
  The repository is TypeScript running on Node. What the code throws is a value:
  \<open>JsError m\<close> is an instance of \<open>Error\<close> with message \<open>m\<close>, \<open>NonError d\<close> is any
  other thrown value. A function that may throw returns \<open>thrown + 'a\<close>, a function that
  also mutates the singletons returns the new state next to it. JavaScript numbers are
  modelled by integers (\<open>NaN\<close>, fractions and magnitudes beyond \<open>2^53\<close> are outside
  the model), strings by byte strings. \<open>process.env\<close> is a map from names to strings.
\<close>

datatype thrown = JsError string | NonError string

type_synonym env = "string \<rightharpoonup> string"

definition env_is_true :: "env \<Rightarrow> string \<Rightarrow> bool" where
  "env_is_true e k = (e k = Some ''true'')"

text \<open>\<open>process.env.K || d\<close>: an unset variable and the empty string are both falsy.\<close>

definition env_or :: "env \<Rightarrow> string \<Rightarrow> string \<Rightarrow> string" where
  "env_or e k d = (case e k of None \<Rightarrow> d | Some v \<Rightarrow> if v = [] then d else v)"

definition is_space :: "char \<Rightarrow> bool" where
  "is_space c = (c \<in> set [CHR '' '', CHR 0x09, CHR 0x0A, CHR 0x0B, CHR 0x0C, CHR 0x0D])"

definition is_digit :: "char \<Rightarrow> bool" where
  "is_digit c = (c \<in> set ''0123456789'')"

definition digit_val :: "char \<Rightarrow> nat" where
  "digit_val c = of_char c - 48"

definition digit_char :: "nat \<Rightarrow> char" where
  "digit_char d = ''0123456789'' ! (d mod 10)"

definition digits_value :: "string \<Rightarrow> nat" where
  "digits_value ds = foldl (\<lambda>acc c. 10 * acc + digit_val c) 0 ds"

text \<open>\<open>parseInt(s, 10)\<close>: leading white space, an optional sign, then the longest run of
  digits; \<open>NaN\<close> (here \<open>None\<close>) when there is no digit.\<close>

definition parseInt :: "string \<Rightarrow> int option" where
  "parseInt s =
     (let t = dropWhile is_space s;
          neg = (case t of [] \<Rightarrow> False | c # _ \<Rightarrow> c = CHR ''-'');
          u = (case t of [] \<Rightarrow> [] | c # r \<Rightarrow> if c = CHR ''-'' \<or> c = CHR ''+'' then r else t);
          ds = takeWhile is_digit u
      in if ds = [] then None
         else Some (if neg then - int (digits_value ds) else int (digits_value ds)))"

text \<open>\<open>n.toString()\<close> for a natural number, and for an integer.\<close>

fun nat_to_string :: "nat \<Rightarrow> string" where
  "nat_to_string n =
     (if n < 10 then [digit_char n] else nat_to_string (n div 10) @ [digit_char (n mod 10)])"


text \<open>\<open>s.trim()\<close> and \<open>s.split(c)\<close> for a one-character separator; \<open>''''.split(c)\<close> is
  the one-element array of the empty string.\<close>

definition trim :: "string \<Rightarrow> string" where
  "trim s = rev (dropWhile is_space (rev (dropWhile is_space s)))"

fun split_char :: "char \<Rightarrow> string \<Rightarrow> string list" where
  "split_char c [] = [[]]"
| "split_char c (x # xs) =
     (if x = c then [] # split_char c xs
      else (case split_char c xs of [] \<Rightarrow> [[x]] | w # ws \<Rightarrow> (x # w) # ws))"

text \<open>\<open>s.includes(t)\<close>.\<close>

fun str_includes :: "string \<Rightarrow> string \<Rightarrow> bool" where
  "str_includes [] t = (t = [])"
| "str_includes (x # xs) t = (take (length t) (x # xs) = t \<or> str_includes xs t)"

section \<open>Config Resolver (src/config/database.config.ts)\<close>

record db_config =
  host :: string
  port :: "int option"
  database :: string
  user :: string
  password :: string
  schema :: string

definition loadConfig :: "env \<Rightarrow> db_config" where
  "loadConfig e =
     \<lparr> host = env_or e ''DB_HOST'' ''localhost'',
       port = parseInt (env_or e ''DB_PORT'' ''5432''),
       database = env_or e ''DB_NAME'' ''api_test_db'',
       user = env_or e ''DB_USER'' ''testuser'',
       password = env_or e ''DB_PASSWORD'' ''testpass'',
       schema = env_or e ''DB_SCHEMA'' ''api_logs'' \<rparr>"

text \<open>\<open>getConfig\<close> reloads from the environment on every call.\<close>

definition getConfig :: "env \<Rightarrow> db_config" where
  "getConfig e = loadConfig e"

section \<open>Payloads and JSON.stringify\<close>

text \<open>
  Header and body payloads have type \<open>any\<close>. \<open>JCyclic\<close> stands for an object graph with
  a cycle (or any value on which \<open>JSON.stringify\<close> throws), \<open>JFunc\<close> for a function or
  symbol, on which \<open>JSON.stringify\<close> returns \<open>undefined\<close> at top level. The text that
  \<open>JSON.stringify\<close> returns is represented by the JSON document it denotes, which is
  what a JSONB column keeps of it.
\<close>

datatype jsval =
    Undefined
  | Null
  | JBool bool
  | JNum int
  | JStr string
  | JArr "jsval list"
  | JObj "(string \<times> jsval) list"
  | JCyclic
  | JFunc

datatype json =
    DNull
  | DBool bool
  | DNum int
  | DStr string
  | DArr "json list"
  | DObj "(string \<times> json) list"

fun truthy :: "jsval \<Rightarrow> bool" where
  "truthy Undefined = False"
| "truthy Null = False"
| "truthy (JBool b) = b"
| "truthy (JNum n) = (n \<noteq> 0)"
| "truthy (JStr s) = (s \<noteq> [])"
| "truthy _ = True"

fun throws_on_stringify :: "jsval \<Rightarrow> bool" where
  "throws_on_stringify JCyclic = True"
| "throws_on_stringify (JArr xs) = list_ex throws_on_stringify xs"
| "throws_on_stringify (JObj kvs) = list_ex throws_on_stringify (map snd kvs)"
| "throws_on_stringify _ = False"

fun omitted :: "jsval \<Rightarrow> bool" where
  "omitted Undefined = True"
| "omitted JFunc = True"
| "omitted _ = False"

fun denote :: "jsval \<Rightarrow> json" where
  "denote Undefined = DNull"
| "denote Null = DNull"
| "denote (JBool b) = DBool b"
| "denote (JNum n) = DNum n"
| "denote (JStr s) = DStr s"
| "denote (JArr xs) = DArr (map denote xs)"
| "denote (JObj kvs) = DObj (map (\<lambda>kv. (fst kv, denote (snd kv))) (filter (\<lambda>kv. \<not> omitted (snd kv)) kvs))"
| "denote JCyclic = DNull"
| "denote JFunc = DNull"

definition JSON_stringify :: "jsval \<Rightarrow> thrown + json option" where
  "JSON_stringify v =
     (if throws_on_stringify v then Inl (JsError ''Converting circular structure to JSON'')
      else if omitted v then Inr None
      else Inr (Some (denote v)))"

section \<open>Connection Pool Manager (class DatabaseManager)\<close>

text \<open>
  The PostgreSQL server and the \<open>pg\<close> library are outside the repository. A \<open>pg_world\<close>
  gives the outcome of each call the manager makes: \<open>Some err\<close> where the call throws
  (or its promise rejects), \<open>None\<close> where it succeeds. A successful INSERT appends the
  row of bound values to the table \<open>api_logs\<close> and returns the rows of its RETURNING
  clause.
\<close>

datatype pool = Pool db_config

datatype ddl = CreateSchema string | CreateTable string | CreateIndex string string

record log_values =
  v_test_name :: "string option"
  v_endpoint :: string
  v_method :: string
  v_request_headers :: "json option"
  v_request_body :: "json option"
  v_response_status :: "int option"
  v_response_headers :: "json option"
  v_response_body :: "json option"
  v_execution_time_ms :: "int option"

record pg_world =
  pool_ctor :: "db_config \<Rightarrow> thrown option"
  pool_select1 :: "pool \<Rightarrow> thrown option"
  pool_connect :: "pool \<Rightarrow> thrown option"
  client_ddl :: "ddl \<Rightarrow> thrown option"
  pool_insert :: "pool \<Rightarrow> string \<Rightarrow> log_values \<Rightarrow> thrown + nat list"
  pool_end :: "pool \<Rightarrow> thrown option"

text \<open>A request as \<open>APIRequestContext.fetch\<close> receives it: the URL, the method and the
  request options the client builds.\<close>

record request =
  rq_url :: string
  rq_method :: string
  rq_headers :: "(string \<times> string) list"
  rq_timeout :: nat
  rq_data :: "jsval option"

datatype http_event = Fetch request | Delay nat

text \<open>
  The state of the process: the two private fields of the DatabaseManager singleton
  (\<open>pool\<close>, \<open>isInitialized\<close>), the rows of the table, the lines written to the console
  by the logging path, and the HTTP calls and timer waits issued by the request client.
  Progress messages of setup and teardown are not recorded.
\<close>

record proc =
  pool :: "pool option"
  isInitialized :: bool
  api_logs :: "log_values list"
  console :: "string list"
  http :: "http_event list"

definition proc_init :: proc where
  "proc_init = \<lparr> pool = None, isInitialized = False, api_logs = [], console = [], http = [] \<rparr>"

record entry =
  testName :: "string option"
  endpoint :: string
  http_method :: string
  requestHeaders :: jsval
  requestBody :: jsval
  responseStatus :: "int option"
  responseHeaders :: jsval
  responseBody :: jsval
  executionTimeMs :: "int option"

definition not_initialized :: thrown where
  "not_initialized = JsError ''Database pool not initialized. Call initialize() first.''"

definition getClient :: "pg_world \<Rightarrow> proc \<Rightarrow> thrown + pool" where
  "getClient w s =
     (case pool s of
        None \<Rightarrow> Inl not_initialized
      | Some p \<Rightarrow>
          if \<not> isInitialized s then Inl not_initialized
          else (case pool_connect w p of Some err \<Rightarrow> Inl err | None \<Rightarrow> Inr p))"

fun run_ddl :: "pg_world \<Rightarrow> ddl list \<Rightarrow> thrown + unit" where
  "run_ddl w [] = Inr ()"
| "run_ddl w (q # qs) = (case client_ddl w q of Some err \<Rightarrow> Inl err | None \<Rightarrow> run_ddl w qs)"

definition schema_statements :: "string \<Rightarrow> ddl list" where
  "schema_statements sch =
     [CreateSchema sch, CreateTable sch,
      CreateIndex ''idx_api_logs_method'' sch,
      CreateIndex ''idx_api_logs_endpoint'' sch,
      CreateIndex ''idx_api_logs_created_at'' sch,
      CreateIndex ''idx_api_logs_test_name'' sch,
      CreateIndex ''idx_api_logs_response_status'' sch]"

text \<open>\<open>createSchemaAndTables\<close>: the first statement that fails aborts the rest; the client
  is released in a \<open>finally\<close> block, which changes nothing of the state modelled here.\<close>

definition createSchemaAndTables :: "env \<Rightarrow> pg_world \<Rightarrow> proc \<Rightarrow> thrown + unit" where
  "createSchemaAndTables e w s =
     (let config = getConfig e in
      case getClient w s of
        Inl err \<Rightarrow> Inl err
      | Inr client \<Rightarrow> run_ddl w (schema_statements (schema config)))"

definition initialize :: "env \<Rightarrow> pg_world \<Rightarrow> proc \<Rightarrow> (thrown + unit) \<times> proc" where
  "initialize e w s =
     (if isInitialized s then (Inr (), s)
      else
        let config = getConfig e in
        case pool_ctor w config of
          Some err \<Rightarrow> (Inl err, s)
        | None \<Rightarrow>
            let s1 = s\<lparr>pool := Some (Pool config)\<rparr> in
            (case pool_select1 w (Pool config) of
               Some err \<Rightarrow> (Inl err, s1)
             | None \<Rightarrow>
                 let s2 = s1\<lparr>isInitialized := True\<rparr> in
                 (case createSchemaAndTables e w s2 of
                    Inl err \<Rightarrow> (Inl err, s2)
                  | Inr u \<Rightarrow> (Inr (), s2))))"

definition reinitializePool :: "env \<Rightarrow> pg_world \<Rightarrow> proc \<Rightarrow> proc" where
  "reinitializePool e w s =
     (if isInitialized s then s
      else
        let config = getConfig e in
        case pool_ctor w config of
          Some err \<Rightarrow>
            if env_is_true e ''DEBUG''
            then s\<lparr>console := console s @ [''error: The pool could not be recreated'']\<rparr>
            else s
        | None \<Rightarrow> s\<lparr>pool := Some (Pool config), isInitialized := True\<rparr>)"

definition isReady :: "env \<Rightarrow> pg_world \<Rightarrow> proc \<Rightarrow> bool \<times> proc" where
  "isReady e w s =
     (let s1 = (if \<not> isInitialized s \<and> env_is_true e ''DB_INITIALIZED''
                then reinitializePool e w s else s)
      in (isInitialized s1 \<and> pool s1 \<noteq> None, s1))"


text \<open>\<open>query(text, params)\<close>, for the one statement the repository sends through it: the
  INSERT into \<open>sch.api_logs\<close> with the nine bound values.\<close>

definition query :: "pg_world \<Rightarrow> proc \<Rightarrow> string \<Rightarrow> log_values \<Rightarrow> thrown + nat list" where
  "query w s sch vals =
     (case pool s of
        None \<Rightarrow> Inl not_initialized
      | Some p \<Rightarrow> if \<not> isInitialized s then Inl not_initialized else pool_insert w p sch vals)"

definition stringifyJson :: "jsval \<Rightarrow> json option" where
  "stringifyJson obj =
     (if obj = Null \<or> obj = Undefined then None
      else (case JSON_stringify obj of
              Inl err \<Rightarrow> Some (DObj [(''error'', DStr ''Failed to stringify object'')])
            | Inr t \<Rightarrow> t))"

text \<open>\<open>x || null\<close> on an optional string and on an optional number.\<close>

definition str_or_null :: "string option \<Rightarrow> string option" where
  "str_or_null x = (case x of None \<Rightarrow> None | Some v \<Rightarrow> if v = [] then None else Some v)"

definition num_or_null :: "int option \<Rightarrow> int option" where
  "num_or_null x = (case x of None \<Rightarrow> None | Some n \<Rightarrow> if n = 0 then None else Some n)"

definition log_values_of :: "entry \<Rightarrow> log_values" where
  "log_values_of d =
     \<lparr> v_test_name = str_or_null (testName d),
       v_endpoint = endpoint d,
       v_method = http_method d,
       v_request_headers = stringifyJson (requestHeaders d),
       v_request_body = stringifyJson (requestBody d),
       v_response_status = num_or_null (responseStatus d),
       v_response_headers = stringifyJson (responseHeaders d),
       v_response_body = stringifyJson (responseBody d),
       v_execution_time_ms = num_or_null (executionTimeMs d) \<rparr>"

text \<open>The \<open>try\<close> block of \<open>logApiCall\<close>. With DEBUG set it reads \<open>result.rows[0].id\<close>,
  which throws a TypeError on an empty result.\<close>

definition logApiCall_try :: "env \<Rightarrow> pg_world \<Rightarrow> proc \<Rightarrow> entry \<Rightarrow> (thrown + unit) \<times> proc" where
  "logApiCall_try e w s d =
     (let config = getConfig e; vals = log_values_of d in
      case query w s (schema config) vals of
        Inl err \<Rightarrow> (Inl err, s)
      | Inr rows \<Rightarrow>
          let s1 = s\<lparr>api_logs := api_logs s @ [vals]\<rparr> in
          if env_is_true e ''DEBUG'' then
            (case rows of
               [] \<Rightarrow> (Inl (JsError ''Cannot read properties of undefined (reading id)''), s1)
             | r # rs \<Rightarrow>
                 (Inr (), s1\<lparr>console := console s1 @
                    [''log: API call logged with ID: '' @ nat_to_string r]\<rparr>))
          else (Inr (), s1))"

definition logApiCall :: "env \<Rightarrow> pg_world \<Rightarrow> proc \<Rightarrow> entry \<Rightarrow> (thrown + unit) \<times> proc" where
  "logApiCall e w s d =
     (case isReady e w s of
        (ready, s1) \<Rightarrow>
          if \<not> ready then
            (Inr (),
             if env_is_true e ''DEBUG''
             then s1\<lparr>console := console s1 @ [''warn: Database not ready, skipping log'']\<rparr>
             else s1)
          else
            (case logApiCall_try e w s1 d of
               (Inl err, s2) \<Rightarrow>
                 (Inr (),
                  if env_is_true e ''DEBUG''
                  then s2\<lparr>console := console s2 @ [''warn: Failed to log API call to database'']\<rparr>
                  else s2)
             | (Inr u, s2) \<Rightarrow> (Inr (), s2)))"

section \<open>Logging-enabled request client (class ApiClientBase)\<close>

record response =
  r_status :: int
  r_headers :: "(string \<times> string) list"
  r_json :: "thrown + jsval"
  r_text :: "thrown + string"

record api_call_options =
  o_headers :: "(string \<times> string) list option"
  o_data :: jsval
  o_params :: "(string \<times> string) list option"
  o_testName :: "string option"

text \<open>The remote API and the clock: the outcome of the fetch of each attempt (numbered
  by \<open>retryCount\<close>), and the milliseconds \<open>Date.now() - startTime\<close> measured in it.\<close>

record http_world =
  fetch :: "nat \<Rightarrow> request \<Rightarrow> thrown + response"
  elapsed :: "nat \<Rightarrow> int"

record client =
  baseURL :: string
  logApiCalls :: bool

definition new_client :: "env \<Rightarrow> string \<Rightarrow> client" where
  "new_client e url = \<lparr> baseURL = url, logApiCalls = env_is_true e ''LOG_API_CALLS'' \<rparr>"

text \<open>\<open>new URLSearchParams(params).toString()\<close>: the application/x-www-form-urlencoded
  serializer over the entries in insertion order.\<close>

definition hex_digit :: "nat \<Rightarrow> char" where
  "hex_digit n = ''0123456789ABCDEF'' ! (n mod 16)"

definition url_keep :: "char \<Rightarrow> bool" where
  "url_keep c =
     (c \<in> set ''abcdefghijklmnopqrstuvwxyzABCDEFGHIJKLMNOPQRSTUVWXYZ0123456789*-._'')"

definition url_encode_char :: "char \<Rightarrow> string" where
  "url_encode_char c =
     (if url_keep c then [c]
      else if c = CHR '' '' then ''+''
      else [CHR ''%'', hex_digit (of_char c div 16), hex_digit (of_char c mod 16)])"

definition url_encode :: "string \<Rightarrow> string" where
  "url_encode s = concat (map url_encode_char s)"

fun join_amp :: "string list \<Rightarrow> string" where
  "join_amp [] = []"
| "join_amp [x] = x"
| "join_amp (x # y # ys) = x @ ''&'' @ join_amp (y # ys)"

definition url_search_params :: "(string \<times> string) list \<Rightarrow> string" where
  "url_search_params ps = join_amp (map (\<lambda>kv. url_encode (fst kv) @ ''='' @ url_encode (snd kv)) ps)"

definition build_request :: "client \<Rightarrow> string \<Rightarrow> string \<Rightarrow> api_call_options \<Rightarrow> request" where
  "build_request c meth ep opts =
     (let url = baseURL c @ ep in
      \<lparr> rq_url = (case o_params opts of
                    None \<Rightarrow> url
                  | Some ps \<Rightarrow> url @ ''?'' @ url_search_params ps),
        rq_method = meth,
        rq_headers = (case o_headers opts of None \<Rightarrow> [] | Some h \<Rightarrow> h),
        rq_timeout = 30000,
        rq_data = (if truthy (o_data opts) then Some (o_data opts) else None) \<rparr>)"

definition headers_obj :: "(string \<times> string) list \<Rightarrow> jsval" where
  "headers_obj h = JObj (map (\<lambda>kv. (fst kv, JStr (snd kv))) h)"

text \<open>The response body as the logging path reads it: JSON, else text, else a
  placeholder.\<close>

definition read_body :: "response \<Rightarrow> jsval" where
  "read_body r =
     (case r_json r of
        Inr v \<Rightarrow> v
      | Inl err \<Rightarrow>
          (case r_text r of
             Inr t \<Rightarrow> JStr t
           | Inl err2 \<Rightarrow> JStr ''Unable to parse response''))"

definition log_entry_of ::
  "string \<Rightarrow> string \<Rightarrow> api_call_options \<Rightarrow> response option \<Rightarrow> int \<Rightarrow> entry" where
  "log_entry_of meth ep opts resp t =
     \<lparr> testName = o_testName opts,
       endpoint = ep,
       http_method = meth,
       requestHeaders = (case o_headers opts of None \<Rightarrow> Undefined | Some h \<Rightarrow> headers_obj h),
       requestBody = o_data opts,
       responseStatus = (case resp of None \<Rightarrow> None | Some r \<Rightarrow> Some (r_status r)),
       responseHeaders = (case resp of None \<Rightarrow> Null | Some r \<Rightarrow> headers_obj (r_headers r)),
       responseBody = (case resp of None \<Rightarrow> Null | Some r \<Rightarrow> read_body r),
       executionTimeMs = Some t \<rparr>"

definition logToDatabase ::
  "env \<Rightarrow> pg_world \<Rightarrow> proc \<Rightarrow> string \<Rightarrow> string \<Rightarrow> api_call_options \<Rightarrow> response option \<Rightarrow> int
     \<Rightarrow> (thrown + unit) \<times> proc" where
  "logToDatabase e w s meth ep opts resp t =
     (case logApiCall e w s (log_entry_of meth ep opts resp t) of
        (Inl err, s1) \<Rightarrow>
          (Inr (),
           if env_is_true e ''DEBUG''
           then s1\<lparr>console := console s1 @ [''warn: Failed to log API call'']\<rparr>
           else s1)
      | (Inr u, s1) \<Rightarrow> (Inr (), s1))"

definition maxRetries :: nat where
  "maxRetries = 2"

definition closed_signature :: string where
  "closed_signature = ''context or browser has been closed''"

definition retryable :: "thrown \<Rightarrow> nat \<Rightarrow> bool" where
  "retryable error retryCount =
     (case error of
        JsError m \<Rightarrow> str_includes m closed_signature \<and> retryCount < maxRetries
      | NonError d \<Rightarrow> False)"

text \<open>The \<open>try\<close> block of \<open>makeRequest\<close>: the fetch, then the logging side effect with
  its \<open>.catch\<close> handler, then the response.\<close>

definition makeRequest_try ::
  "client \<Rightarrow> env \<Rightarrow> pg_world \<Rightarrow> http_world \<Rightarrow> proc \<Rightarrow> string \<Rightarrow> string \<Rightarrow> api_call_options \<Rightarrow> nat
     \<Rightarrow> (thrown + response) \<times> proc" where
  "makeRequest_try c e w hw s meth ep opts retryCount =
     (let rq = build_request c meth ep opts;
          s0 = s\<lparr>http := http s @ [Fetch rq]\<rparr> in
      case fetch hw retryCount rq of
        Inl err \<Rightarrow> (Inl err, s0)
      | Inr resp \<Rightarrow>
          if logApiCalls c then
            (case isReady e w s0 of
               (ready, s1) \<Rightarrow>
                 if ready then
                   (case logToDatabase e w s1 meth ep opts (Some resp) (elapsed hw retryCount) of
                      (Inl err, s2) \<Rightarrow>
                        (Inr resp, s2\<lparr>console := console s2 @ [''error: Failed to log API call'']\<rparr>)
                    | (Inr u, s2) \<Rightarrow> (Inr resp, s2))
                 else (Inr resp, s1))
          else (Inr resp, s0))"

function makeRequest ::
  "client \<Rightarrow> env \<Rightarrow> pg_world \<Rightarrow> http_world \<Rightarrow> proc \<Rightarrow> string \<Rightarrow> string \<Rightarrow> api_call_options \<Rightarrow> nat
     \<Rightarrow> (thrown + response) \<times> proc" where
  "makeRequest c e w hw s meth ep opts retryCount =
     (case makeRequest_try c e w hw s meth ep opts retryCount of
        (Inr resp, s1) \<Rightarrow> (Inr resp, s1)
      | (Inl error, s1) \<Rightarrow>
          if retryable error retryCount then
            makeRequest c e w hw
              (s1\<lparr>console := console s1 @ [''warn: Request failed, retrying...''],
                  http := http s1 @ [Delay 1000]\<rparr>)
              meth ep opts (Suc retryCount)
          else
            let s2 = s1\<lparr>console := console s1 @ [''error: API call failed: '' @ meth @ '' '' @ ep]\<rparr> in
            if logApiCalls c then
              (case isReady e w s2 of
                 (ready, s3) \<Rightarrow>
                   if ready then
                     (case logToDatabase e w s3 meth ep opts None (elapsed hw retryCount) of
                        (r, s4) \<Rightarrow> (Inl error, s4))
                   else (Inl error, s3))
            else (Inl error, s2))"
  by pat_completeness auto
termination
  by (relation "measure (\<lambda>(c, e, w, hw, s, meth, ep, opts, retryCount). maxRetries - retryCount)")
     (auto simp: retryable_def split: thrown.splits)

declare makeRequest.simps [simp del]


section \<open>User client (class UserClient)\<close>




section \<open>Container Lifecycle Manager (class TestContainerManager)\<close>

text \<open>
  The container runtime is reached through shell commands and the testcontainers
  library. A \<open>docker_world\<close> gives the outcome of each of them: the standard output of
  the two \<open>docker ps\<close> listings and of \<open>docker inspect\<close>, whether \<open>docker update\<close>,
  \<open>docker rm -f\<close> and \<open>container.stop()\<close> throw, and what starting a new container
  returns. Every command the manager issues is recorded in \<open>docker_log\<close>.
\<close>

record container =
  c_id :: string
  c_host :: string
  c_port :: nat
  c_database :: string
  c_username :: string
  c_password :: string

datatype docker_event =
    PsLabel
  | PsAncestor
  | UpdateLabel string
  | Inspect string
  | RmForce string
  | CreateContainer db_config
  | Created container
  | StopContainer container

record docker_world =
  ps_label :: "thrown + string"
  ps_ancestor :: "thrown + string"
  update_label :: "string \<Rightarrow> thrown option"
  inspect :: "string \<Rightarrow> thrown + string"
  rm_force :: "string \<Rightarrow> thrown option"
  container_start :: "db_config \<Rightarrow> thrown + container"
  container_stop :: "container \<Rightarrow> thrown option"

record tcm =
  container :: "container option"
  docker_log :: "docker_event list"

definition tcm_init :: tcm where
  "tcm_init = \<lparr> container = None, docker_log = [] \<rparr>"

record find_result =
  exists :: bool
  containerId :: "string option"
  hostPort :: "nat option"

definition not_found :: find_result where
  "not_found = \<lparr> exists = False, containerId = None, hostPort = None \<rparr>"

text \<open>The regular expression \<open>/0\.0\.0\.0:(\d+)->5432/\<close>: the leftmost match, and its
  group 1. After the literal prefix the digits are taken greedily; the character that
  follows them must be \<open>-\<close>, so no shorter run of digits can match.\<close>

definition match_port_here :: "string \<Rightarrow> string option" where
  "match_port_here s =
     (if take 8 s = ''0.0.0.0:'' then
        (let ds = takeWhile is_digit (drop 8 s);
             rest = dropWhile is_digit (drop 8 s)
         in if ds \<noteq> [] \<and> take 6 rest = ''->5432'' then Some ds else None)
      else None)"

fun match_port :: "string \<Rightarrow> string option" where
  "match_port [] = None"
| "match_port (c # cs) =
     (case match_port_here (c # cs) of Some ds \<Rightarrow> Some ds | None \<Rightarrow> match_port cs)"

definition type_error :: thrown where
  "type_error = JsError ''Cannot read properties of undefined''"

text \<open>The block of \<open>findExistingContainer\<close> that reads the first line of a listing. An
  array element that is missing is \<open>undefined\<close>, and calling a method on it throws.
  \<open>Inr None\<close> is the fall through to \<open>return { exists: false }\<close>.\<close>

definition parse_listing :: "string \<Rightarrow> thrown + find_result option" where
  "parse_listing stdout =
     (case split_char (CHR 0x0A) (trim stdout) of
        [] \<Rightarrow> Inl type_error
      | line0 # others \<Rightarrow>
          (case split_char (CHR '','') line0 of
             [] \<Rightarrow> Inl type_error
           | cid # rest \<Rightarrow>
               (case rest of
                  [] \<Rightarrow> Inl type_error
                | portsString # rest2 \<Rightarrow>
                    (case match_port portsString of
                       None \<Rightarrow> Inr None
                     | Some ds \<Rightarrow>
                         if digits_value ds \<noteq> 0
                         then Inr (Some \<lparr> exists = True, containerId = Some cid,
                                          hostPort = Some (digits_value ds) \<rparr>)
                         else Inr None))))"

definition find_in_listing :: "string \<Rightarrow> find_result" where
  "find_in_listing stdout =
     (if trim stdout \<noteq> [] then
        (case parse_listing stdout of
           Inl err \<Rightarrow> not_found
         | Inr None \<Rightarrow> not_found
         | Inr (Some r) \<Rightarrow> r)
      else not_found)"

text \<open>\<open>stdout.trim().split(',')[0].split('\n')[0]\<close>.\<close>

definition first_id :: "string \<Rightarrow> string" where
  "first_id stdout =
     (case split_char (CHR '','') (trim stdout) of
        [] \<Rightarrow> []
      | f # fs \<Rightarrow> (case split_char (CHR 0x0A) f of [] \<Rightarrow> [] | g # gs \<Rightarrow> g))"

definition findExistingContainer :: "docker_world \<Rightarrow> find_result \<times> docker_event list" where
  "findExistingContainer d =
     (case ps_label d of
        Inl err \<Rightarrow> (not_found, [PsLabel])
      | Inr out1 \<Rightarrow>
          if trim out1 = [] then
            (case ps_ancestor d of
               Inl err \<Rightarrow> (not_found, [PsLabel, PsAncestor])
             | Inr out2 \<Rightarrow>
                 if trim out2 \<noteq> [] then
                   (case update_label d (first_id out2) of
                      Some err \<Rightarrow>
                        (find_in_listing out2, [PsLabel, PsAncestor, UpdateLabel (first_id out2)])
                    | None \<Rightarrow>
                        (find_in_listing out2, [PsLabel, PsAncestor, UpdateLabel (first_id out2)]))
                 else (find_in_listing out2, [PsLabel, PsAncestor]))
          else (find_in_listing out1, [PsLabel]))"

definition getExistingContainerConfig ::
  "env \<Rightarrow> docker_world \<Rightarrow> string \<Rightarrow> nat \<Rightarrow> (thrown + unit) \<times> env" where
  "getExistingContainerConfig e d cid p =
     (case inspect d cid of
        Inl err \<Rightarrow> (Inl err, e)
      | Inr stdout \<Rightarrow>
          if trim stdout = ''true'' then
            (let config = getConfig e in
             (Inr (),
              e(''DB_HOST'' \<mapsto> ''localhost'',
                ''DB_PORT'' \<mapsto> nat_to_string p,
                ''DB_NAME'' \<mapsto> database config,
                ''DB_USER'' \<mapsto> user config,
                ''DB_PASSWORD'' \<mapsto> password config,
                ''DB_INITIALIZED'' \<mapsto> ''true'')))
          else (Inl (JsError ''Container is not running''), e))"

text \<open>The second half of \<open>start\<close>: a new container from the resolved configuration.\<close>

definition create_new ::
  "env \<Rightarrow> docker_world \<Rightarrow> tcm \<Rightarrow> (thrown + container option) \<times> env \<times> tcm" where
  "create_new e d s =
     (let config = getConfig e;
          s0 = s\<lparr>docker_log := docker_log s @ [CreateContainer config]\<rparr> in
      case container_start d config of
        Inl err \<Rightarrow> (Inl err, e, s0)
      | Inr c \<Rightarrow>
          (Inr (Some c),
           e(''DB_HOST'' \<mapsto> c_host c,
             ''DB_PORT'' \<mapsto> nat_to_string (c_port c),
             ''DB_NAME'' \<mapsto> c_database c,
             ''DB_USER'' \<mapsto> c_username c,
             ''DB_PASSWORD'' \<mapsto> c_password c,
             ''DB_INITIALIZED'' \<mapsto> ''true''),
           s0\<lparr>container := Some c, docker_log := docker_log s0 @ [Created c]\<rparr>))"

text \<open>\<open>existingContainer.exists && existingContainer.port\<close>: the port 0 is falsy.\<close>

definition usable :: "find_result \<Rightarrow> bool" where
  "usable r = (exists r \<and> (case hostPort r of None \<Rightarrow> False | Some p \<Rightarrow> p \<noteq> 0))"

definition id_text :: "find_result \<Rightarrow> string" where
  "id_text r = (case containerId r of None \<Rightarrow> ''undefined'' | Some i \<Rightarrow> i)"

definition port_of :: "find_result \<Rightarrow> nat" where
  "port_of r = (case hostPort r of None \<Rightarrow> 0 | Some p \<Rightarrow> p)"

definition start ::
  "env \<Rightarrow> docker_world \<Rightarrow> tcm \<Rightarrow> (thrown + container option) \<times> env \<times> tcm" where
  "start e d s =
     (case findExistingContainer d of
        (existing, evs) \<Rightarrow>
          let s0 = s\<lparr>docker_log := docker_log s @ evs\<rparr> in
          if usable existing then
            (case getExistingContainerConfig e d (id_text existing) (port_of existing) of
               (Inr u, e1) \<Rightarrow>
                 (Inr None, e1, s0\<lparr>docker_log := docker_log s0 @ [Inspect (id_text existing)]\<rparr>)
             | (Inl err, e1) \<Rightarrow>
                 (case rm_force d (id_text existing) of
                    Some err2 \<Rightarrow>
                      create_new e1 d
                        (s0\<lparr>docker_log := docker_log s0 @
                            [Inspect (id_text existing), RmForce (id_text existing)]\<rparr>)
                  | None \<Rightarrow>
                      create_new e1 d
                        (s0\<lparr>docker_log := docker_log s0 @
                            [Inspect (id_text existing), RmForce (id_text existing)]\<rparr>)))
          else create_new e d s0)"

definition stop :: "env \<Rightarrow> docker_world \<Rightarrow> tcm \<Rightarrow> (thrown + unit) \<times> tcm" where
  "stop e d s =
     (if env_is_true e ''KEEP_CONTAINER_RUNNING'' then (Inr (), s)
      else
        (case container s of
           Some c \<Rightarrow>
             (case container_stop d c of
                Some err \<Rightarrow> (Inl err, s\<lparr>docker_log := docker_log s @ [StopContainer c]\<rparr>)
              | None \<Rightarrow>
                  (Inr (), s\<lparr>container := None, docker_log := docker_log s @ [StopContainer c]\<rparr>))
         | None \<Rightarrow> (Inr (), s)))"

text \<open>Runs of the manager: a sequence of calls, each against the runtime as it is at
  that moment; the environment is the one the calls leave behind.\<close>

datatype tcm_op = OpStart | OpStop

fun tcm_run :: "env \<Rightarrow> tcm \<Rightarrow> (tcm_op \<times> docker_world) list \<Rightarrow> env \<times> tcm" where
  "tcm_run e s [] = (e, s)"
| "tcm_run e s ((OpStart, d) # ops) =
     (case start e d s of (r, e1, s1) \<Rightarrow> tcm_run e1 s1 ops)"
| "tcm_run e s ((OpStop, d) # ops) =
     (case stop e d s of (r, s1) \<Rightarrow> tcm_run e s1 ops)"




section \<open>The retry policy, in the words of the specification\<close>

text \<open>
  One failure signature is retried: an \<open>Error\<close> whose message contains the
  context-closed text. \<open>retry_policy f k n\<close> is the outcome of a request whose attempt
  \<open>i\<close> has outcome \<open>f i\<close>, starting at attempt \<open>k\<close> with \<open>n\<close> retries left;
  \<open>retry_events\<close> lists the fetches and the one-second waits it issues.
\<close>

definition has_signature :: "thrown \<Rightarrow> bool" where
  "has_signature error = (case error of JsError m \<Rightarrow> str_includes m closed_signature | NonError d \<Rightarrow> False)"

fun retry_policy :: "(nat \<Rightarrow> thrown + response) \<Rightarrow> nat \<Rightarrow> nat \<Rightarrow> thrown + response" where
  "retry_policy f k 0 = f k"
| "retry_policy f k (Suc n) =
     (case f k of
        Inr resp \<Rightarrow> Inr resp
      | Inl error \<Rightarrow> if has_signature error then retry_policy f (Suc k) n else Inl error)"

fun retry_events :: "(nat \<Rightarrow> thrown + response) \<Rightarrow> request \<Rightarrow> nat \<Rightarrow> nat \<Rightarrow> http_event list" where
  "retry_events f rq k 0 = [Fetch rq]"
| "retry_events f rq k (Suc n) =
     Fetch rq #
     (case f k of
        Inr resp \<Rightarrow> []
      | Inl error \<Rightarrow> if has_signature error then Delay 1000 # retry_events f rq (Suc k) n else [])"

text \<open>Sample databases, for evaluating the model at concrete inputs: one on which every
  call succeeds, one that cannot be reached, and one that refuses every DDL statement.\<close>

definition pg_ok :: pg_world where
  "pg_ok =
     \<lparr> pool_ctor = (\<lambda>c. None), pool_select1 = (\<lambda>p. None), pool_connect = (\<lambda>p. None),
       client_ddl = (\<lambda>q. None), pool_insert = (\<lambda>p sch v. Inr [1]), pool_end = (\<lambda>p. None) \<rparr>"

definition pg_unreachable :: pg_world where
  "pg_unreachable = pg_ok\<lparr>pool_select1 := (\<lambda>p. Some (JsError ''connect ECONNREFUSED''))\<rparr>"

definition pg_schema_fails :: pg_world where
  "pg_schema_fails = pg_ok\<lparr>client_ddl := (\<lambda>q. Some (JsError ''permission denied''))\<rparr>"

text \<open>An entry none of whose payloads can be serialized as it is.\<close>

definition cyclic_entry :: entry where
  "cyclic_entry =
     \<lparr> testName = Some ''t'', endpoint = ''/users'', http_method = ''GET'',
       requestHeaders = JCyclic, requestBody = JArr [JCyclic],
       responseStatus = Some 200, responseHeaders = JObj [(''a'', JCyclic)],
       responseBody = JFunc, executionTimeMs = Some 12 \<rparr>"





text \<open>An entry whose status and duration are the number 0.\<close>

definition zero_entry :: entry where
  "zero_entry =
     \<lparr> testName = Some ''t'', endpoint = ''/users'', http_method = ''GET'',
       requestHeaders = Undefined, requestBody = Undefined,
       responseStatus = Some 0, responseHeaders = Null,
       responseBody = Null, executionTimeMs = Some 0 \<rparr>"

text \<open>Predicates on the state of the container manager: an event that neither starts
  nor stops a container, and the invariant that the handle and every stop refer to a
  container this instance created.\<close>

definition quiet_event :: "docker_event \<Rightarrow> bool" where
  "quiet_event ev = (case ev of StopContainer c \<Rightarrow> False | Created c \<Rightarrow> False | _ \<Rightarrow> True)"

definition tcm_inv :: "tcm \<Rightarrow> bool" where
  "tcm_inv s =
     ((\<forall>c. container s = Some c \<longrightarrow> Created c \<in> set (docker_log s))
      \<and> (\<forall>c. StopContainer c \<in> set (docker_log s) \<longrightarrow> Created c \<in> set (docker_log s)))"

text \<open>Sample container runtimes, for evaluating the model at concrete inputs: one
  labelled container that is running; the same container without the label, on a runtime
  that refuses to label it; no runtime at all, with and without the means to start a
  container; a listing that fails; a listing without a port mapping; a container that
  is listed but not running; a container that is listed but gone at inspection.\<close>

definition listing_labelled :: string where
  "listing_labelled = ''abc123def456,0.0.0.0:32768->5432/tcp, :::32768->5432/tcp'' @ [CHR 0x0A]"

definition sample_container :: container where
  "sample_container =
     \<lparr> c_id = ''f00dfeed'', c_host = ''localhost'', c_port = 49153,
       c_database = ''api_test_db'', c_username = ''testuser'', c_password = ''testpass'' \<rparr>"

definition docker_labelled :: docker_world where
  "docker_labelled =
     \<lparr> ps_label = Inr listing_labelled, ps_ancestor = Inr [],
       update_label = (\<lambda>i. None), inspect = (\<lambda>i. Inr (''true'' @ [CHR 0x0A])),
       rm_force = (\<lambda>i. None), container_start = (\<lambda>c. Inl (JsError ''no container runtime'')),
       container_stop = (\<lambda>c. None) \<rparr>"


definition docker_empty :: docker_world where
  "docker_empty =
     docker_labelled\<lparr>ps_label := Inl (JsError ''docker: command not found''),
       container_start := (\<lambda>c. Inr sample_container)\<rparr>"

definition found_labelled :: find_result where
  "found_labelled = \<lparr> exists = True, containerId = Some ''abc123def456'', hostPort = Some 32768 \<rparr>"

definition env_keep :: env where
  "env_keep = Map.empty(''KEEP_CONTAINER_RUNNING'' \<mapsto> ''true'')"

definition tcm_owning :: tcm where
  "tcm_owning = \<lparr> container = Some sample_container, docker_log = [Created sample_container] \<rparr>"




definition docker_stopped :: docker_world where
  "docker_stopped = docker_labelled\<lparr>inspect := (\<lambda>i. Inr ''false'')\<rparr>"




section \<open>Properties of the logging path and the request client\<close>

lemma isReady_http: "http (snd (isReady e w s)) = http s"
  by (simp add: isReady_def reinitializePool_def Let_def split: option.splits)

lemma logApiCall_fst: "fst (logApiCall e w s d) = Inr ()"
  by (simp add: logApiCall_def split: prod.splits sum.splits)

lemma logApiCall_try_http: "http (snd (logApiCall_try e w s d)) = http s"
  by (simp add: logApiCall_try_def Let_def split: sum.splits list.splits)

lemma logApiCall_http: "http (snd (logApiCall e w s d)) = http s"
  using isReady_http[of e w s] logApiCall_try_http[of e w "snd (isReady e w s)" d]
  by (auto simp add: logApiCall_def split: prod.splits sum.splits)

lemma logToDatabase_fst: "fst (logToDatabase e w s meth ep opts resp t) = Inr ()"
  by (simp add: logToDatabase_def split: prod.splits sum.splits)

lemma logToDatabase_http: "http (snd (logToDatabase e w s meth ep opts resp t)) = http s"
  using logApiCall_http[of e w s "log_entry_of meth ep opts resp t"]
  by (auto simp add: logToDatabase_def split: prod.splits sum.splits)

lemma makeRequest_try_fst:
  "fst (makeRequest_try c e w hw s meth ep opts k) = fetch hw k (build_request c meth ep opts)"
  by (simp add: makeRequest_try_def Let_def split: sum.splits prod.splits)

lemma isReady_httpD: "isReady e w s = (b, s') \<Longrightarrow> http s' = http s"
  using isReady_http[of e w s] by simp

lemma logToDatabase_httpD:
  "logToDatabase e w s meth ep opts resp t = (r, s') \<Longrightarrow> http s' = http s"
  using logToDatabase_http[of e w s meth ep opts resp t] by simp

lemma makeRequest_try_http:
  "http (snd (makeRequest_try c e w hw s meth ep opts k)) = http s @ [Fetch (build_request c meth ep opts)]"
  by (auto simp add: makeRequest_try_def Let_def split: sum.splits prod.splits
           dest!: isReady_httpD logToDatabase_httpD)

lemma retryable_iff: "retryable error k = (has_signature error \<and> k < maxRetries)"
  by (simp add: retryable_def has_signature_def split: thrown.splits)

lemma makeRequest_outcome:
  "fst (makeRequest c e w hw s meth ep opts k) =
     retry_policy (\<lambda>i. fetch hw i (build_request c meth ep opts)) k (maxRetries - k)"
proof (induction c e w hw s meth ep opts k rule: makeRequest.induct)
  case (1 c e w hw s meth ep opts k)
  obtain r s1 where t: "makeRequest_try c e w hw s meth ep opts k = (r, s1)"
    by (cases "makeRequest_try c e w hw s meth ep opts k")
  have r: "fetch hw k (build_request c meth ep opts) = r"
    using makeRequest_try_fst[of c e w hw s meth ep opts k] t by simp
  note unf = makeRequest.simps[of c e w hw s meth ep opts k]
  show ?case
  proof (cases r)
    case (Inr resp)
    have "fst (makeRequest c e w hw s meth ep opts k) = Inr resp"
      using t Inr by (simp add: unf)
    then show ?thesis using r Inr
      by (cases "maxRetries - k") simp_all
  next
    case (Inl error)
    show ?thesis
    proof (cases "retryable error k")
      case True
      then have lt: "k < maxRetries" and sg: "has_signature error" by (simp_all add: retryable_iff)
      then obtain n where n: "maxRetries - k = Suc n" by (cases "maxRetries - k") auto
      then have n': "maxRetries - Suc k = n" by simp
      have "fst (makeRequest c e w hw s meth ep opts k) =
            retry_policy (\<lambda>i. fetch hw i (build_request c meth ep opts)) (Suc k) n"
        using "1.IH"[OF t[symmetric] Inl True] t Inl True n'
        by (simp add: unf)
      then show ?thesis using r Inl sg n by simp
    next
      case False
      have res: "fst (makeRequest c e w hw s meth ep opts k) = Inl error"
        using t Inl False
        by (simp add: unf Let_def split: prod.splits)
      show ?thesis
      proof (cases "maxRetries - k")
        case 0
        then show ?thesis using res r Inl by simp
      next
        case (Suc n)
        then have "k < maxRetries" by simp
        with False have "\<not> has_signature error" by (simp add: retryable_iff)
        then show ?thesis using res r Inl Suc by simp
      qed
    qed
  qed
qed

lemma makeRequest_http:
  "http (snd (makeRequest c e w hw s meth ep opts k)) =
     http s @ retry_events (\<lambda>i. fetch hw i (build_request c meth ep opts))
                (build_request c meth ep opts) k (maxRetries - k)"
proof (induction c e w hw s meth ep opts k rule: makeRequest.induct)
  case (1 c e w hw s meth ep opts k)
  let ?rq = "build_request c meth ep opts"
  obtain r s1 where t: "makeRequest_try c e w hw s meth ep opts k = (r, s1)"
    by (cases "makeRequest_try c e w hw s meth ep opts k")
  have r: "fetch hw k ?rq = r"
    using makeRequest_try_fst[of c e w hw s meth ep opts k] t by simp
  have h1: "http s1 = http s @ [Fetch ?rq]"
    using makeRequest_try_http[of c e w hw s meth ep opts k] t by simp
  note unf = makeRequest.simps[of c e w hw s meth ep opts k]
  show ?case
  proof (cases r)
    case (Inr resp)
    have "http (snd (makeRequest c e w hw s meth ep opts k)) = http s @ [Fetch ?rq]"
      using t Inr h1 by (simp add: unf)
    then show ?thesis using r Inr
      by (cases "maxRetries - k") simp_all
  next
    case (Inl error)
    show ?thesis
    proof (cases "retryable error k")
      case True
      then have lt: "k < maxRetries" and sg: "has_signature error" by (simp_all add: retryable_iff)
      then obtain n where n: "maxRetries - k = Suc n" by (cases "maxRetries - k") auto
      then have n': "maxRetries - Suc k = n" by simp
      have "http (snd (makeRequest c e w hw s meth ep opts k)) =
            (http s @ [Fetch ?rq, Delay 1000]) @ retry_events (\<lambda>i. fetch hw i ?rq) ?rq (Suc k) n"
        using "1.IH"[OF t[symmetric] Inl True] t Inl True n' h1
        by (simp add: unf)
      then show ?thesis using r Inl sg n by simp
    next
      case False
      let ?s2 = "s1\<lparr>console := console s1 @ [''error: API call failed: '' @ meth @ '' '' @ ep]\<rparr>"
      have res: "http (snd (makeRequest c e w hw s meth ep opts k)) = http s @ [Fetch ?rq]"
        using t Inl False h1
        by (auto simp add: unf Let_def split: prod.splits
                 dest!: isReady_httpD logToDatabase_httpD)
      show ?thesis
      proof (cases "maxRetries - k")
        case 0
        then show ?thesis using res r Inl by simp
      next
        case (Suc n)
        then have "k < maxRetries" by simp
        with False have "\<not> has_signature error" by (simp add: retryable_iff)
        then show ?thesis using res r Inl Suc by simp
      qed
    qed
  qed
qed

text \<open>
  Claim C6. Whatever the logging configuration and the state of the database, the
  outcome of \<open>makeRequest\<close> started at any \<open>retryCount\<close> is the one the retry policy
  gives for the outcomes of the fetches: a failed attempt is followed by another one
  exactly when its error is an \<open>Error\<close> carrying the context-closed signature and fewer
  than \<open>maxRetries = 2\<close> retries have been made; any other error, and the error of the
  last allowed attempt, is the error the caller gets. The fetches issued are those of
  the policy, with one wait of 1000 ms before each retry. Written out for a call that
  starts at \<open>retryCount = 0\<close>: at most three fetches, the second and third only after
  a failure with the signature.
\<close>

theorem C6_retry_only_on_closed_context:
  "fst (makeRequest c e w hw s meth ep opts retryCount) =
     retry_policy (\<lambda>i. fetch hw i (build_request c meth ep opts)) retryCount (maxRetries - retryCount)
   \<and> http (snd (makeRequest c e w hw s meth ep opts retryCount)) =
     http s @ retry_events (\<lambda>i. fetch hw i (build_request c meth ep opts))
                (build_request c meth ep opts) retryCount (maxRetries - retryCount)
   \<and> maxRetries = 2
   \<and> fst (makeRequest c e w hw s meth ep opts 0) =
       (case fetch hw 0 (build_request c meth ep opts) of
          Inr resp \<Rightarrow> Inr resp
        | Inl error0 \<Rightarrow>
            if has_signature error0 then
              (case fetch hw 1 (build_request c meth ep opts) of
                 Inr resp \<Rightarrow> Inr resp
               | Inl error1 \<Rightarrow>
                   if has_signature error1 then fetch hw 2 (build_request c meth ep opts)
                   else Inl error1)
            else Inl error0)"
proof -
  have unroll: "retry_policy f 0 2 =
       (case f 0 of
          Inr resp \<Rightarrow> Inr resp
        | Inl error0 \<Rightarrow>
            if has_signature error0 then
              (case f 1 of
                 Inr resp \<Rightarrow> Inr resp
               | Inl error1 \<Rightarrow> if has_signature error1 then f 2 else Inl error1)
            else Inl error0)" for f
    by (simp add: numeral_2_eq_2 split: sum.splits)
  show ?thesis
    using makeRequest_outcome[of c e w hw s meth ep opts retryCount]
          makeRequest_http[of c e w hw s meth ep opts retryCount]
          makeRequest_outcome[of c e w hw s meth ep opts 0]
    by (simp add: maxRetries_def unroll)
qed

lemma build_request_logflag:
  "build_request (c\<lparr>logApiCalls := b\<rparr>) meth ep opts = build_request c meth ep opts"
  by (simp add: build_request_def)

text \<open>
  Claim C9. Two runs of \<open>makeRequest\<close> on the same request and the same remote
  behaviour, which differ in the logging flag of the client, in the environment, in the
  behaviour of the database and in the state of the pool manager, return the same
  response or throw the same error.
\<close>

theorem C9_outcome_independent_of_logging:
  "fst (makeRequest (c\<lparr>logApiCalls := b1\<rparr>) e1 w1 hw s1 meth ep opts retryCount) =
   fst (makeRequest (c\<lparr>logApiCalls := b2\<rparr>) e2 w2 hw s2 meth ep opts retryCount)"
  by (simp add: makeRequest_outcome build_request_logflag)


lemma isReady_api_logs: "api_logs (snd (isReady e w s)) = api_logs s"
  by (simp add: isReady_def reinitializePool_def Let_def split: option.splits)

text \<open>
  Claim C4. For every entry, environment, database behaviour and manager state,
  \<open>logApiCall\<close> returns normally. When the manager is not ready it inserts nothing and
  leaves the state as \<open>isReady\<close> left it, but for one warning line when DEBUG is set.
  In every case the table is unchanged or extended by the one row of the entry, the
  console is untouched unless DEBUG is set, and no HTTP call is made.
\<close>

theorem C4_logApiCall_never_throws:
  "fst (logApiCall e w s d) = Inr ()
   \<and> (\<not> fst (isReady e w s) \<longrightarrow>
        api_logs (snd (logApiCall e w s d)) = api_logs s
        \<and> snd (logApiCall e w s d) =
            (if env_is_true e ''DEBUG''
             then (snd (isReady e w s))\<lparr>console := console (snd (isReady e w s)) @
                     [''warn: Database not ready, skipping log'']\<rparr>
             else snd (isReady e w s)))
   \<and> (api_logs (snd (logApiCall e w s d)) = api_logs s
        \<or> api_logs (snd (logApiCall e w s d)) = api_logs s @ [log_values_of d])
   \<and> (\<not> env_is_true e ''DEBUG'' \<longrightarrow> console (snd (logApiCall e w s d)) = console s)
   \<and> http (snd (logApiCall e w s d)) = http s"
proof -
  obtain b s1 where r: "isReady e w s = (b, s1)" by (cases "isReady e w s")
  have a1: "api_logs s1 = api_logs s" using isReady_api_logs[of e w s] r by simp
  have c1: "\<not> env_is_true e ''DEBUG'' \<Longrightarrow> console s1 = console s"
    using r by (auto simp add: isReady_def reinitializePool_def Let_def split: option.splits if_splits)
  have t: "api_logs (snd (logApiCall_try e w s1 d)) = api_logs s1
           \<or> api_logs (snd (logApiCall_try e w s1 d)) = api_logs s1 @ [log_values_of d]"
    by (simp add: logApiCall_try_def Let_def split: sum.splits list.splits)
  have tc: "\<not> env_is_true e ''DEBUG'' \<Longrightarrow> console (snd (logApiCall_try e w s1 d)) = console s1"
    by (simp add: logApiCall_try_def Let_def split: sum.splits list.splits)
  have p1: "fst (logApiCall e w s d) = Inr ()" by (rule logApiCall_fst)
  have p2: "\<not> b \<Longrightarrow> snd (logApiCall e w s d) =
            (if env_is_true e ''DEBUG''
             then s1\<lparr>console := console s1 @ [''warn: Database not ready, skipping log'']\<rparr>
             else s1)"
    using r by (simp add: logApiCall_def)
  have p3: "api_logs (snd (logApiCall e w s d)) = api_logs s
        \<or> api_logs (snd (logApiCall e w s d)) = api_logs s @ [log_values_of d]"
    using r a1 t by (auto simp add: logApiCall_def split: prod.splits sum.splits)
  have p4: "\<not> env_is_true e ''DEBUG'' \<Longrightarrow> console (snd (logApiCall e w s d)) = console s"
    using r c1 tc by (auto simp add: logApiCall_def split: prod.splits sum.splits)
  have p5: "http (snd (logApiCall e w s d)) = http s" by (rule logApiCall_http)
  show ?thesis using p1 p2 p3 p4 p5 r a1 by auto
qed

theorem C4_witness:
  "\<not> fst (isReady Map.empty pg_ok proc_init)
   \<and> \<not> env_is_true Map.empty ''DEBUG''
   \<and> logApiCall Map.empty pg_ok proc_init cyclic_entry = (Inr (), proc_init)"
proof -
  have h1: "\<not> fst (isReady Map.empty pg_ok proc_init)"
    by (simp add: isReady_def proc_init_def env_is_true_def)
  have h2: "\<not> env_is_true Map.empty ''DEBUG''" by (simp add: env_is_true_def)
  have s1: "snd (isReady Map.empty pg_ok proc_init) = proc_init"
    by (simp add: isReady_def proc_init_def env_is_true_def)
  from C4_logApiCall_never_throws[of Map.empty pg_ok proc_init cyclic_entry] h1 h2 s1
  have "fst (logApiCall Map.empty pg_ok proc_init cyclic_entry) = Inr ()"
       "snd (logApiCall Map.empty pg_ok proc_init cyclic_entry) = proc_init"
    by simp_all
  then have "logApiCall Map.empty pg_ok proc_init cyclic_entry = (Inr (), proc_init)"
    by (simp add: prod_eq_iff)
  with h1 h2 show ?thesis by simp
qed

section \<open>Properties of the pool manager\<close>




















text \<open>What a failed \<open>initialize\<close> leaves behind. A failed connectivity check leaves the
  flag unset, so the next \<open>initialize\<close> runs in full; a failed schema statement comes
  after the flag was set, and nothing resets it.\<close>

lemma initialize_connectivity_failure:
  "\<not> isInitialized s \<Longrightarrow> pool_ctor w (getConfig e) = None \<Longrightarrow>
   pool_select1 w (Pool (getConfig e)) = Some err \<Longrightarrow>
     fst (initialize e w s) = Inl err
     \<and> \<not> isInitialized (snd (initialize e w s))
     \<and> (\<not> env_is_true e' ''DB_INITIALIZED'' \<longrightarrow> \<not> fst (isReady e' w' (snd (initialize e w s))))
     \<and> initialize e2 w2 (snd (initialize e w s)) = initialize e2 w2 (s\<lparr>pool := Some (Pool (getConfig e))\<rparr>)"
  by (simp add: initialize_def isReady_def Let_def)

lemma initialize_schema_failure:
  "\<not> isInitialized s \<Longrightarrow> pool_ctor w (getConfig e) = None \<Longrightarrow>
   pool_select1 w (Pool (getConfig e)) = None \<Longrightarrow>
   createSchemaAndTables e w (s\<lparr>pool := Some (Pool (getConfig e)), isInitialized := True\<rparr>) = Inl err \<Longrightarrow>
     fst (initialize e w s) = Inl err
     \<and> isInitialized (snd (initialize e w s))
     \<and> fst (isReady e' w' (snd (initialize e w s)))
     \<and> initialize e2 w2 (snd (initialize e w s)) = (Inr (), snd (initialize e w s))"
  by (simp add: initialize_def isReady_def Let_def)

lemma initialize_unreachable:
  "fst (initialize Map.empty pg_unreachable proc_init) = Inl (JsError ''connect ECONNREFUSED'')
   \<and> \<not> isInitialized (snd (initialize Map.empty pg_unreachable proc_init))
   \<and> \<not> fst (isReady Map.empty pg_ok (snd (initialize Map.empty pg_unreachable proc_init)))
   \<and> fst (initialize Map.empty pg_ok (snd (initialize Map.empty pg_unreachable proc_init))) = Inr ()
   \<and> isInitialized (snd (initialize Map.empty pg_ok (snd (initialize Map.empty pg_unreachable proc_init))))"
  by (simp add: initialize_def isReady_def proc_init_def pg_unreachable_def pg_ok_def
        createSchemaAndTables_def getClient_def schema_statements_def env_is_true_def Let_def)

text \<open>
  Claim C2, evaluated where the code departs from it. On a fresh manager, with
  DB_INITIALIZED unset and a database that answers \<open>SELECT 1\<close> but refuses
  \<open>CREATE SCHEMA\<close>, \<open>initialize\<close> throws the error of the statement and leaves
  \<open>isInitialized\<close> set: \<open>isReady\<close> is true, and a second \<open>initialize\<close>, on a database
  that would now accept everything, returns at once and changes nothing.
\<close>

theorem C2_schema_failure_leaves_initialized:
  "fst (initialize Map.empty pg_schema_fails proc_init) = Inl (JsError ''permission denied'')
   \<and> isInitialized (snd (initialize Map.empty pg_schema_fails proc_init))
   \<and> fst (isReady Map.empty pg_ok (snd (initialize Map.empty pg_schema_fails proc_init)))
   \<and> initialize Map.empty pg_ok (snd (initialize Map.empty pg_schema_fails proc_init)) =
       (Inr (), snd (initialize Map.empty pg_schema_fails proc_init))"
  by (simp add: initialize_def isReady_def proc_init_def pg_schema_fails_def pg_ok_def
        createSchemaAndTables_def getClient_def schema_statements_def Let_def)

text \<open>The bound values keep the endpoint and the method, and keep the test name, the
  status and the duration unless these are falsy; a payload that serializes is bound as
  the document it denotes; on a ready manager a successful INSERT appends the row.\<close>

lemma log_values_kept:
  "v_endpoint (log_values_of d) = endpoint d
   \<and> v_method (log_values_of d) = http_method d
   \<and> (testName d \<noteq> Some [] \<longrightarrow> v_test_name (log_values_of d) = testName d)
   \<and> (responseStatus d \<noteq> Some 0 \<longrightarrow> v_response_status (log_values_of d) = responseStatus d)
   \<and> (executionTimeMs d \<noteq> Some 0 \<longrightarrow> v_execution_time_ms (log_values_of d) = executionTimeMs d)"
  by (simp add: log_values_of_def str_or_null_def num_or_null_def split: option.splits)

lemma stringifyJson_denotes:
  "\<not> throws_on_stringify v \<Longrightarrow> \<not> omitted v \<Longrightarrow> v \<noteq> Null \<Longrightarrow> stringifyJson v = Some (denote v)"
  by (auto simp add: stringifyJson_def JSON_stringify_def)

lemma logApiCall_inserts:
  "isInitialized s \<Longrightarrow> pool s = Some p \<Longrightarrow>
   pool_insert w p (schema (getConfig e)) (log_values_of d) = Inr rows \<Longrightarrow>
     api_logs (snd (logApiCall e w s d)) = api_logs s @ [log_values_of d]"
  by (simp add: logApiCall_def isReady_def logApiCall_try_def query_def Let_def split: list.splits)

text \<open>
  Claim C3, evaluated where the code departs from it. On a ready manager and a database
  that accepts the INSERT, the entry with \<open>responseStatus = 0\<close> and
  \<open>executionTimeMs = 0\<close> is stored as one row whose \<open>response_status\<close> and
  \<open>execution_time_ms\<close> are NULL: \<open>x || null\<close> takes the number 0 for a missing value.
\<close>

theorem C3_zero_values_stored_as_null:
  "responseStatus zero_entry = Some 0
   \<and> executionTimeMs zero_entry = Some 0
   \<and> map v_response_status
        (api_logs (snd (logApiCall Map.empty pg_ok (snd (initialize Map.empty pg_ok proc_init)) zero_entry))) = [None]
   \<and> map v_execution_time_ms
        (api_logs (snd (logApiCall Map.empty pg_ok (snd (initialize Map.empty pg_ok proc_init)) zero_entry))) = [None]"
  by (simp add: logApiCall_def isReady_def logApiCall_try_def query_def Let_def zero_entry_def
        initialize_def proc_init_def pg_ok_def createSchemaAndTables_def getClient_def
        schema_statements_def log_values_of_def num_or_null_def env_is_true_def)

section \<open>Properties of the container manager\<close>

text \<open>Printing a natural number and parsing it back.\<close>

lemma digit_char_cases:
  "d < 10 \<Longrightarrow> digit_char d \<in> set ''0123456789'' \<and> digit_val (digit_char d) = d"
proof -
  assume "d < 10"
  then have "d = 0 \<or> d = 1 \<or> d = 2 \<or> d = 3 \<or> d = 4 \<or> d = 5 \<or> d = 6 \<or> d = 7 \<or> d = 8 \<or> d = 9"
    by arith
  then show ?thesis
    by (elim disjE) (simp_all add: digit_char_def digit_val_def)
qed

lemma is_digit_digit_char: "d < 10 \<Longrightarrow> is_digit (digit_char d)"
  using digit_char_cases[of d] by (simp add: is_digit_def)

lemma digit_val_digit_char: "d < 10 \<Longrightarrow> digit_val (digit_char d) = d"
  using digit_char_cases[of d] by simp

lemma is_digit_not_space: "is_digit c \<Longrightarrow> \<not> is_space c \<and> c \<noteq> CHR ''-'' \<and> c \<noteq> CHR ''+''"
  by (auto simp add: is_digit_def is_space_def)

lemma nat_to_string_digits: "list_all is_digit (nat_to_string n) \<and> nat_to_string n \<noteq> []"
proof (induction n rule: nat_to_string.induct)
  case (1 n)
  show ?case
  proof (cases "n < 10")
    case True
    then show ?thesis by (simp add: is_digit_digit_char)
  next
    case False
    then show ?thesis
      using "1.IH" by (subst nat_to_string.simps, subst (2) nat_to_string.simps)
                      (simp add: is_digit_digit_char)
  qed
qed

lemma digits_value_snoc: "digits_value (ds @ [c]) = 10 * digits_value ds + digit_val c"
  by (simp add: digits_value_def)

lemma digits_value_nat_to_string: "digits_value (nat_to_string n) = n"
proof (induction n rule: nat_to_string.induct)
  case (1 n)
  show ?case
  proof (cases "n < 10")
    case True
    then show ?thesis by (simp add: digits_value_def digit_val_digit_char)
  next
    case False
    then have "digits_value (nat_to_string n) = 10 * (n div 10) + n mod 10"
      using "1.IH" by (subst nat_to_string.simps) (simp add: digits_value_snoc digit_val_digit_char)
    then show ?thesis by simp
  qed
qed

lemma parseInt_digits:
  "is_digit c \<Longrightarrow> list_all is_digit cs \<Longrightarrow> parseInt (c # cs) = Some (int (digits_value (c # cs)))"
proof -
  assume c: "is_digit c" and cs: "list_all is_digit cs"
  have tw: "takeWhile is_digit cs = cs"
    using cs by (simp add: list_all_iff takeWhile_eq_all_conv)
  show ?thesis
    using is_digit_not_space[OF c] c
    by (simp add: parseInt_def Let_def tw)
qed

lemma parseInt_nat_to_string: "parseInt (nat_to_string n) = Some (int n)"
proof -
  obtain c cs where cs: "nat_to_string n = c # cs"
    using nat_to_string_digits[of n] by (cases "nat_to_string n") auto
  have all: "list_all is_digit (c # cs)" using nat_to_string_digits[of n] cs by simp
  have "parseInt (c # cs) = Some (int (digits_value (c # cs)))"
    using all by (intro parseInt_digits) simp_all
  then show ?thesis
    using digits_value_nat_to_string[of n] cs by simp
qed

text \<open>The shape of \<open>start\<close>: what discovery returns, and the three ways \<open>start\<close>
  continues from it.\<close>

lemma parse_listing_usable: "parse_listing out = Inr (Some r) \<Longrightarrow> usable r"
  by (auto simp add: parse_listing_def usable_def split: list.splits option.splits if_splits)

lemma find_in_listing_parsed:
  "trim out \<noteq> [] \<Longrightarrow> parse_listing out = Inr (Some r) \<Longrightarrow> find_in_listing out = r"
  by (simp add: find_in_listing_def)

lemma findExistingContainer_events:
  "list_all quiet_event (snd (findExistingContainer d))"
  by (simp add: findExistingContainer_def quiet_event_def split: sum.splits option.splits)


lemma getExistingContainerConfig_failure:
  "fst (getExistingContainerConfig e d cid p) = Inl err \<Longrightarrow> snd (getExistingContainerConfig e d cid p) = e"
proof (cases "inspect d cid")
  case (Inl a)
  then show ?thesis by (simp add: getExistingContainerConfig_def)
next
  case (Inr out)
  assume f: "fst (getExistingContainerConfig e d cid p) = Inl err"
  show ?thesis
  proof (cases "trim out = ''true''")
    case True
    then show ?thesis using f Inr by (simp add: getExistingContainerConfig_def Let_def)
  next
    case False
    then show ?thesis using Inr by (simp add: getExistingContainerConfig_def)
  qed
qed




lemma start_not_usable:
  "\<not> usable (fst (findExistingContainer d)) \<Longrightarrow>
     start e d s = create_new e d (s\<lparr>docker_log := docker_log s @ snd (findExistingContainer d)\<rparr>)"
proof -
  assume u: "\<not> usable (fst (findExistingContainer d))"
  obtain r evs where f: "findExistingContainer d = (r, evs)" by (cases "findExistingContainer d")
  show ?thesis using u f by (simp add: start_def Let_def)
qed

lemma start_verification_failed:
  "usable (fst (findExistingContainer d)) \<Longrightarrow>
   fst (getExistingContainerConfig e d (id_text (fst (findExistingContainer d)))
          (port_of (fst (findExistingContainer d)))) = Inl err \<Longrightarrow>
     start e d s =
       create_new e d
         (s\<lparr>docker_log := docker_log s @ snd (findExistingContainer d) @
              [Inspect (id_text (fst (findExistingContainer d))),
               RmForce (id_text (fst (findExistingContainer d)))]\<rparr>)"
proof -
  obtain r evs where f: "findExistingContainer d = (r, evs)" by (cases "findExistingContainer d")
  assume u: "usable (fst (findExistingContainer d))"
    and g: "fst (getExistingContainerConfig e d (id_text (fst (findExistingContainer d)))
          (port_of (fst (findExistingContainer d)))) = Inl err"
  obtain x e1 where c: "getExistingContainerConfig e d (id_text r) (port_of r) = (x, e1)"
    by (cases "getExistingContainerConfig e d (id_text r) (port_of r)")
  have x: "x = Inl err" using g f c by simp
  have e1: "e1 = e"
    using getExistingContainerConfig_failure[of e d "id_text r" "port_of r" err] c x by simp
  show ?thesis
    using u f c x e1 by (simp add: start_def Let_def split: option.splits)
qed

lemma start_reuse:
  "usable (fst (findExistingContainer d)) \<Longrightarrow>
   fst (getExistingContainerConfig e d (id_text (fst (findExistingContainer d)))
          (port_of (fst (findExistingContainer d)))) = Inr () \<Longrightarrow>
     start e d s =
       (Inr None,
        snd (getExistingContainerConfig e d (id_text (fst (findExistingContainer d)))
          (port_of (fst (findExistingContainer d)))),
        s\<lparr>docker_log := docker_log s @ snd (findExistingContainer d) @
              [Inspect (id_text (fst (findExistingContainer d)))]\<rparr>)"
proof -
  obtain r evs where f: "findExistingContainer d = (r, evs)" by (cases "findExistingContainer d")
  assume u: "usable (fst (findExistingContainer d))"
    and g: "fst (getExistingContainerConfig e d (id_text (fst (findExistingContainer d)))
          (port_of (fst (findExistingContainer d)))) = Inr ()"
  obtain x e1 where c: "getExistingContainerConfig e d (id_text r) (port_of r) = (x, e1)"
    by (cases "getExistingContainerConfig e d (id_text r) (port_of r)")
  have x: "x = Inr ()" using g f c by simp
  show ?thesis
    using u f c x by (simp add: start_def Let_def)
qed

text \<open>The invariant of the manager is kept by every call.\<close>

lemma quiet_mem: "list_all quiet_event evs \<Longrightarrow> StopContainer c \<notin> set evs \<and> Created c \<notin> set evs"
  by (auto simp add: list_all_iff quiet_event_def)

lemma tcm_inv_quiet:
  "tcm_inv s \<Longrightarrow> list_all quiet_event evs \<Longrightarrow> tcm_inv (s\<lparr>docker_log := docker_log s @ evs\<rparr>)"
  using quiet_mem[of evs] by (auto simp add: tcm_inv_def)

lemma create_new_inv: "tcm_inv s \<Longrightarrow> tcm_inv (snd (snd (create_new e d s)))"
  by (auto simp add: create_new_def tcm_inv_def Let_def split: sum.splits)

lemma create_new_container:
  "(fst (create_new e d s) = Inr None \<longrightarrow> False)
   \<and> (fst (create_new e d s) = Inr (Some c) \<longrightarrow>
        container (snd (snd (create_new e d s))) = Some c \<and> container_start d (getConfig e) = Inr c)
   \<and> (fst (create_new e d s) = Inl err \<longrightarrow> container_start d (getConfig e) = Inl err)"
  by (auto simp add: create_new_def Let_def split: sum.splits)

lemma start_cases:
  "(\<exists>evs. list_all quiet_event evs \<and> start e d s = create_new e d (s\<lparr>docker_log := docker_log s @ evs\<rparr>))
   \<or> (\<exists>evs e1. list_all quiet_event evs \<and> start e d s = (Inr None, e1, s\<lparr>docker_log := docker_log s @ evs\<rparr>))"
proof (cases "usable (fst (findExistingContainer d))")
  case False
  then show ?thesis
    using start_not_usable[of d e s] findExistingContainer_events[of d] by blast
next
  case True
  let ?r = "fst (findExistingContainer d)"
  show ?thesis
  proof (cases "fst (getExistingContainerConfig e d (id_text ?r) (port_of ?r))")
    case (Inl err)
    have "list_all quiet_event (snd (findExistingContainer d) @ [Inspect (id_text ?r), RmForce (id_text ?r)])"
      using findExistingContainer_events[of d] by (simp add: quiet_event_def)
    then show ?thesis using start_verification_failed[OF True Inl, of s] by blast
  next
    case (Inr u)
    have "list_all quiet_event (snd (findExistingContainer d) @ [Inspect (id_text ?r)])"
      using findExistingContainer_events[of d] by (simp add: quiet_event_def)
    moreover have "fst (getExistingContainerConfig e d (id_text ?r) (port_of ?r)) = Inr ()"
      using Inr by simp
    ultimately show ?thesis using start_reuse[OF True, of e s] by blast
  qed
qed

lemma start_inv: "tcm_inv s \<Longrightarrow> tcm_inv (snd (snd (start e d s)))"
  using start_cases[of e d s] create_new_inv tcm_inv_quiet by fastforce

lemma start_container:
  "(fst (start e d s) = Inr None \<longrightarrow> container (snd (snd (start e d s))) = container s)
   \<and> (fst (start e d s) = Inr (Some c) \<longrightarrow>
        container (snd (snd (start e d s))) = Some c \<and> container_start d (getConfig e) = Inr c)
   \<and> (fst (start e d s) = Inl err \<longrightarrow> container_start d (getConfig e) = Inl err)"
  using start_cases[of e d s] create_new_container by fastforce

lemma stop_inv: "tcm_inv s \<Longrightarrow> tcm_inv (snd (stop e d s))"
  by (auto simp add: stop_def tcm_inv_def split: option.splits)

lemma tcm_run_inv: "tcm_inv s \<Longrightarrow> tcm_inv (snd (tcm_run e s ops))"
proof (induction ops arbitrary: e s)
  case Nil
  then show ?case by simp
next
  case (Cons x ops)
  obtain opn d where x: "x = (opn, d)" by (cases x)
  show ?case
  proof (cases opn)
    case OpStart
    obtain r e1 s1 where st: "start e d s = (r, e1, s1)" by (cases "start e d s") auto
    have "tcm_inv s1" using start_inv[OF Cons.prems, of e d] st by simp
    then show ?thesis using Cons.IH[of s1 e1] x OpStart st by simp
  next
    case OpStop
    obtain r s1 where st: "stop e d s = (r, s1)" by (cases "stop e d s")
    have "tcm_inv s1" using stop_inv[OF Cons.prems, of e d] st by simp
    then show ?thesis using Cons.IH[of s1 e] x OpStop st by simp
  qed
qed

lemma findExistingContainer_labelled:
  "ps_label d = Inr out1 \<Longrightarrow> trim out1 \<noteq> [] \<Longrightarrow>
     findExistingContainer d = (find_in_listing out1, [PsLabel])"
  by (simp add: findExistingContainer_def)

lemma env_or_set: "v \<noteq> [] \<Longrightarrow> env_or (e(k \<mapsto> v)) k dflt = v"
  by (simp add: env_or_def)

lemma getExistingContainerConfig_ok:
  "inspect d cid = Inr out \<Longrightarrow> trim out = ''true'' \<Longrightarrow>
     fst (getExistingContainerConfig e d cid p) = Inr ()
     \<and> snd (getExistingContainerConfig e d cid p) ''DB_HOST'' = Some ''localhost''
     \<and> snd (getExistingContainerConfig e d cid p) ''DB_PORT'' = Some (nat_to_string p)
     \<and> snd (getExistingContainerConfig e d cid p) ''DB_INITIALIZED'' = Some ''true''"
  by (simp add: getExistingContainerConfig_def Let_def)

lemma getConfig_host_port:
  "e ''DB_HOST'' = Some ''localhost'' \<Longrightarrow> e ''DB_PORT'' = Some (nat_to_string p) \<Longrightarrow>
     host (getConfig e) = ''localhost'' \<and> port (getConfig e) = Some (int p)"
  using nat_to_string_digits[of p] parseInt_nat_to_string[of p]
  by (simp add: getConfig_def loadConfig_def env_or_def)

text \<open>
  Claim C5. When the listing of labelled containers is not blank, its first line parses
  to a container id and a non-zero host port, and \<open>docker inspect\<close> of that container
  prints \<open>true\<close>, then \<open>start\<close> returns \<open>null\<close>, sets DB_HOST to \<open>localhost\<close> and
  DB_PORT to the decimal text of the discovered port, so that the configuration read
  afterwards has that host and that port; no container is created and the stored handle
  is left as it was.
\<close>

theorem C5_start_reuses_labelled_container:
  assumes "ps_label d = Inr out1" and "trim out1 \<noteq> []"
    and "parse_listing out1 = Inr (Some r)"
    and "inspect d (id_text r) = Inr out" and "trim out = ''true''"
  shows "fst (start e d s) = Inr None
   \<and> fst (snd (start e d s)) ''DB_HOST'' = Some ''localhost''
   \<and> fst (snd (start e d s)) ''DB_PORT'' = Some (nat_to_string (port_of r))
   \<and> host (getConfig (fst (snd (start e d s)))) = ''localhost''
   \<and> port (getConfig (fst (snd (start e d s)))) = Some (int (port_of r))
   \<and> hostPort r = Some (port_of r)
   \<and> snd (snd (start e d s)) = s\<lparr>docker_log := docker_log s @ [PsLabel, Inspect (id_text r)]\<rparr>"
proof -
  have f: "findExistingContainer d = (r, [PsLabel])"
    using assms(1,2,3) by (simp add: findExistingContainer_labelled find_in_listing_parsed)
  have u: "usable (fst (findExistingContainer d))"
    using f parse_listing_usable[OF assms(3)] by simp
  note g = getExistingContainerConfig_ok[OF assms(4,5), of e "port_of r"]
  have g1: "fst (getExistingContainerConfig e d (id_text (fst (findExistingContainer d)))
          (port_of (fst (findExistingContainer d)))) = Inr ()"
    using g f by simp
  have st: "start e d s =
       (Inr None, snd (getExistingContainerConfig e d (id_text r) (port_of r)),
        s\<lparr>docker_log := docker_log s @ [PsLabel, Inspect (id_text r)]\<rparr>)"
    using start_reuse[OF u g1, of s] f by simp
  have hp: "hostPort r = Some (port_of r)"
    using parse_listing_usable[OF assms(3)] by (simp add: usable_def port_of_def split: option.splits)
  show ?thesis
    using st g hp getConfig_host_port[of "snd (getExistingContainerConfig e d (id_text r) (port_of r))" "port_of r"]
    by simp
qed

text \<open>
  Claim C7. With KEEP_CONTAINER_RUNNING set to \<open>'true'\<close>, \<open>stop\<close> changes nothing and
  stops nothing. Without it, \<open>stop\<close> issues exactly one stop, of the container in the
  stored handle, or none when the handle is empty, and clears the handle when the stop
  succeeds. A \<open>start\<close> that reuses a container returns \<open>null\<close> and leaves the handle as
  it was; a \<open>start\<close> that returns a container has just created it and stores it. Hence
  in every run of the manager from its initial state the handle, and every container
  ever stopped, is a container this instance created.
\<close>

theorem C7_stop_only_own_container:
  "(env_is_true e ''KEEP_CONTAINER_RUNNING'' \<longrightarrow> stop e d s = (Inr (), s))
   \<and> (\<not> env_is_true e ''KEEP_CONTAINER_RUNNING'' \<longrightarrow>
        docker_log (snd (stop e d s)) =
          docker_log s @ (case container s of None \<Rightarrow> [] | Some c \<Rightarrow> [StopContainer c]))
   \<and> (\<not> env_is_true e ''KEEP_CONTAINER_RUNNING'' \<and> fst (stop e d s) = Inr () \<longrightarrow>
        container (snd (stop e d s)) = None)
   \<and> (fst (start e d s) = Inr None \<longrightarrow> container (snd (snd (start e d s))) = container s)
   \<and> (fst (start e d s) = Inr (Some c) \<longrightarrow>
        container (snd (snd (start e d s))) = Some c \<and> container_start d (getConfig e) = Inr c)
   \<and> (container (snd (tcm_run e0 tcm_init ops)) = Some c \<longrightarrow>
        Created c \<in> set (docker_log (snd (tcm_run e0 tcm_init ops))))
   \<and> (StopContainer c \<in> set (docker_log (snd (tcm_run e0 tcm_init ops))) \<longrightarrow>
        Created c \<in> set (docker_log (snd (tcm_run e0 tcm_init ops))))"
proof -
  have i0: "tcm_inv tcm_init" by (simp add: tcm_inv_def tcm_init_def)
  have inv: "tcm_inv (snd (tcm_run e0 tcm_init ops))" by (rule tcm_run_inv[OF i0])
  have p1: "env_is_true e ''KEEP_CONTAINER_RUNNING'' \<Longrightarrow> stop e d s = (Inr (), s)"
    by (simp add: stop_def)
  have p2: "\<not> env_is_true e ''KEEP_CONTAINER_RUNNING'' \<Longrightarrow>
        docker_log (snd (stop e d s)) =
          docker_log s @ (case container s of None \<Rightarrow> [] | Some c \<Rightarrow> [StopContainer c])"
    by (simp add: stop_def split: option.splits)
  have p3: "\<not> env_is_true e ''KEEP_CONTAINER_RUNNING'' \<Longrightarrow> fst (stop e d s) = Inr () \<Longrightarrow>
        container (snd (stop e d s)) = None"
    by (auto simp add: stop_def split: option.splits)
  show ?thesis
    using p1 p2 p3 start_container[of e d s c] inv
    unfolding tcm_inv_def by blast
qed





text \<open>The model evaluated on the sample runtimes.\<close>

lemma trim_listing_labelled:
  "trim listing_labelled = ''abc123def456,0.0.0.0:32768->5432/tcp, :::32768->5432/tcp''"
  by (simp add: listing_labelled_def trim_def is_space_def)

lemma match_port_sample: "match_port ''0.0.0.0:32768->5432/tcp'' = Some ''32768''"
  by (simp add: match_port_here_def is_digit_def)

lemma digits_value_sample: "digits_value ''32768'' = 32768"
  by (simp add: digits_value_def digit_val_def)

lemma parse_listing_labelled: "parse_listing listing_labelled = Inr (Some found_labelled)"
  by (simp add: parse_listing_def trim_listing_labelled match_port_sample digits_value_sample
        found_labelled_def del: match_port.simps)

lemma trim_true: "trim (''true'' @ [CHR 0x0A]) = ''true''"
  by (simp add: trim_def is_space_def)

lemma find_labelled: "findExistingContainer docker_labelled = (found_labelled, [PsLabel])"
  using trim_listing_labelled parse_listing_labelled
  by (simp add: findExistingContainer_def docker_labelled_def find_in_listing_def)



lemma usable_found: "usable found_labelled \<and> id_text found_labelled = ''abc123def456'' \<and> port_of found_labelled = 32768"
  by (simp add: usable_def found_labelled_def id_text_def port_of_def)

text \<open>Claim C5 at the labelled sample runtime.\<close>

theorem C5_witness:
  "ps_label docker_labelled = Inr listing_labelled
   \<and> trim listing_labelled \<noteq> []
   \<and> parse_listing listing_labelled = Inr (Some found_labelled)
   \<and> inspect docker_labelled (id_text found_labelled) = Inr (''true'' @ [CHR 0x0A])
   \<and> trim (''true'' @ [CHR 0x0A]) = ''true''
   \<and> fst (start Map.empty docker_labelled tcm_init) = Inr None
   \<and> fst (snd (start Map.empty docker_labelled tcm_init)) ''DB_HOST'' = Some ''localhost''
   \<and> fst (snd (start Map.empty docker_labelled tcm_init)) ''DB_PORT'' = Some ''32768''
   \<and> port (getConfig (fst (snd (start Map.empty docker_labelled tcm_init)))) = Some 32768"
proof -
  have h1: "ps_label docker_labelled = Inr listing_labelled" by (simp add: docker_labelled_def)
  have h2: "trim listing_labelled \<noteq> []" by (simp add: trim_listing_labelled)
  have h3: "parse_listing listing_labelled = Inr (Some found_labelled)"
    by (rule parse_listing_labelled)
  have h4: "inspect docker_labelled (id_text found_labelled) = Inr (''true'' @ [CHR 0x0A])"
    by (simp add: docker_labelled_def)
  have h5: "trim (''true'' @ [CHR 0x0A]) = ''true''" by (rule trim_true)
  have n: "nat_to_string 32768 = ''32768''" by (simp add: digit_char_def)
  note c = C5_start_reuses_labelled_container[OF h1 h2 h3 h4 h5, of Map.empty tcm_init]
  show ?thesis using h1 h2 h3 h4 h5 c n usable_found by simp
qed

lemma find_empty: "findExistingContainer docker_empty = (not_found, [PsLabel])"
  by (simp add: findExistingContainer_def docker_empty_def docker_labelled_def)

lemma not_usable_not_found: "\<not> usable not_found"
  by (simp add: usable_def not_found_def)

lemma start_empty:
  "fst (start Map.empty docker_empty tcm_init) = Inr (Some sample_container)
   \<and> snd (snd (start Map.empty docker_empty tcm_init)) =
       \<lparr> container = Some sample_container,
         docker_log = [PsLabel, CreateContainer (getConfig Map.empty), Created sample_container] \<rparr>"
proof -
  have "start Map.empty docker_empty tcm_init =
        create_new Map.empty docker_empty (tcm_init\<lparr>docker_log := docker_log tcm_init @ [PsLabel]\<rparr>)"
    using start_not_usable[of docker_empty Map.empty tcm_init] find_empty not_usable_not_found
    by simp
  then show ?thesis
    by (simp add: create_new_def docker_empty_def docker_labelled_def tcm_init_def Let_def)
qed

lemma config_labelled:
  "fst (getExistingContainerConfig Map.empty docker_labelled ''abc123def456'' 32768) = Inr ()"
  using getExistingContainerConfig_ok[of docker_labelled "''abc123def456''" "''true'' @ [CHR 0x0A]" Map.empty 32768]
    trim_true
  by (simp add: docker_labelled_def)


lemma start_labelled:
  "fst (start Map.empty docker_labelled tcm_init) = Inr None
   \<and> snd (snd (start Map.empty docker_labelled tcm_init)) =
       \<lparr> container = None, docker_log = [PsLabel, Inspect ''abc123def456''] \<rparr>"
  using start_reuse[of docker_labelled Map.empty tcm_init] find_labelled usable_found config_labelled
  by (simp add: tcm_init_def)


lemma stop_owning:
  "stop Map.empty docker_labelled tcm_owning =
     (Inr (), \<lparr> container = None,
                docker_log = [Created sample_container, StopContainer sample_container] \<rparr>)"
  by (simp add: stop_def env_is_true_def docker_labelled_def tcm_owning_def)

lemma run_start:
  "snd (tcm_run Map.empty tcm_init [(OpStart, docker_empty)]) =
     \<lparr> container = Some sample_container,
       docker_log = [PsLabel, CreateContainer (getConfig Map.empty), Created sample_container] \<rparr>"
proof -
  obtain r e1 s1 where st: "start Map.empty docker_empty tcm_init = (r, e1, s1)"
    by (cases "start Map.empty docker_empty tcm_init") auto
  show ?thesis using start_empty st by simp
qed

lemma stop_after_start:
  "stop e1 docker_empty
     \<lparr> container = Some sample_container,
       docker_log = [PsLabel, CreateContainer (getConfig Map.empty), Created sample_container] \<rparr> =
   (if env_is_true e1 ''KEEP_CONTAINER_RUNNING''
    then (Inr (), \<lparr> container = Some sample_container,
       docker_log = [PsLabel, CreateContainer (getConfig Map.empty), Created sample_container] \<rparr>)
    else (Inr (), \<lparr> container = None,
       docker_log = [PsLabel, CreateContainer (getConfig Map.empty), Created sample_container,
                     StopContainer sample_container] \<rparr>))"
  by (simp add: stop_def docker_empty_def docker_labelled_def)

lemma env_after_start_empty:
  "\<not> env_is_true (fst (snd (start Map.empty docker_empty tcm_init))) ''KEEP_CONTAINER_RUNNING''"
proof -
  have "start Map.empty docker_empty tcm_init =
        create_new Map.empty docker_empty (tcm_init\<lparr>docker_log := docker_log tcm_init @ [PsLabel]\<rparr>)"
    using start_not_usable[of docker_empty Map.empty tcm_init] find_empty not_usable_not_found
    by simp
  then show ?thesis
    by (simp add: create_new_def docker_empty_def docker_labelled_def env_is_true_def Let_def)
qed

lemma run_start_stop:
  "docker_log (snd (tcm_run Map.empty tcm_init [(OpStart, docker_empty), (OpStop, docker_empty)])) =
     [PsLabel, CreateContainer (getConfig Map.empty), Created sample_container,
      StopContainer sample_container]"
proof -
  obtain r e1 s1 where st: "start Map.empty docker_empty tcm_init = (r, e1, s1)"
    by (cases "start Map.empty docker_empty tcm_init") auto
  have s1: "s1 = \<lparr> container = Some sample_container,
       docker_log = [PsLabel, CreateContainer (getConfig Map.empty), Created sample_container] \<rparr>"
    using start_empty st by simp
  have k: "\<not> env_is_true e1 ''KEEP_CONTAINER_RUNNING''"
    using env_after_start_empty st by simp
  show ?thesis
    using st k stop_after_start[of e1] by (simp add: s1)
qed




lemma trim_false: "trim ''false'' \<noteq> ''true''"
  by (simp add: trim_def is_space_def)

lemma config_stopped:
  "fst (getExistingContainerConfig Map.empty docker_stopped ''abc123def456'' 32768) =
     Inl (JsError ''Container is not running'')"
  using trim_false by (simp add: getExistingContainerConfig_def docker_stopped_def docker_labelled_def)

text \<open>Claim C7 at the sample runtimes.\<close>

theorem C7_witness:
  "(env_is_true env_keep ''KEEP_CONTAINER_RUNNING''
     \<and> stop env_keep docker_labelled tcm_owning = (Inr (), tcm_owning))
   \<and> (\<not> env_is_true Map.empty ''KEEP_CONTAINER_RUNNING''
     \<and> docker_log (snd (stop Map.empty docker_labelled tcm_owning)) =
         [Created sample_container, StopContainer sample_container])
   \<and> (fst (stop Map.empty docker_labelled tcm_owning) = Inr ()
     \<and> container (snd (stop Map.empty docker_labelled tcm_owning)) = None)
   \<and> (fst (start Map.empty docker_labelled tcm_init) = Inr None
     \<and> container (snd (snd (start Map.empty docker_labelled tcm_init))) = None)
   \<and> (fst (start Map.empty docker_empty tcm_init) = Inr (Some sample_container)
     \<and> container (snd (snd (start Map.empty docker_empty tcm_init))) = Some sample_container)
   \<and> (container (snd (tcm_run Map.empty tcm_init [(OpStart, docker_empty)])) = Some sample_container
     \<and> Created sample_container \<in>
         set (docker_log (snd (tcm_run Map.empty tcm_init [(OpStart, docker_empty)]))))
   \<and> (StopContainer sample_container \<in>
         set (docker_log (snd (tcm_run Map.empty tcm_init [(OpStart, docker_empty), (OpStop, docker_empty)])))
     \<and> Created sample_container \<in>
         set (docker_log (snd (tcm_run Map.empty tcm_init [(OpStart, docker_empty), (OpStop, docker_empty)]))))"
proof -
  let ?r1 = "[(OpStart, docker_empty)]"
  let ?r2 = "[(OpStart, docker_empty), (OpStop, docker_empty)]"
  have h1: "env_is_true env_keep ''KEEP_CONTAINER_RUNNING''"
    by (simp add: env_is_true_def env_keep_def)
  have h2: "\<not> env_is_true Map.empty ''KEEP_CONTAINER_RUNNING''" by (simp add: env_is_true_def)
  have h3: "fst (stop Map.empty docker_labelled tcm_owning) = Inr ()" by (simp add: stop_owning)
  have h4: "fst (start Map.empty docker_labelled tcm_init) = Inr None" using start_labelled by simp
  have h5: "fst (start Map.empty docker_empty tcm_init) = Inr (Some sample_container)"
    using start_empty by simp
  have h6: "container (snd (tcm_run Map.empty tcm_init ?r1)) = Some sample_container"
    by (simp only: run_start) simp
  have h7: "StopContainer sample_container \<in> set (docker_log (snd (tcm_run Map.empty tcm_init ?r2)))"
    by (simp only: run_start_stop) simp
  note a = C7_stop_only_own_container[of env_keep docker_labelled tcm_owning sample_container Map.empty ?r1]
  note b = C7_stop_only_own_container[of Map.empty docker_labelled tcm_owning sample_container Map.empty ?r2]
  note c = C7_stop_only_own_container[of Map.empty docker_labelled tcm_init sample_container Map.empty ?r1]
  note d = C7_stop_only_own_container[of Map.empty docker_empty tcm_init sample_container Map.empty ?r1]
  from a h1 have c1: "stop env_keep docker_labelled tcm_owning = (Inr (), tcm_owning)" by blast
  from b h2 have c2: "docker_log (snd (stop Map.empty docker_labelled tcm_owning)) =
      docker_log tcm_owning @ (case container tcm_owning of None \<Rightarrow> [] | Some c \<Rightarrow> [StopContainer c])"
    by blast
  then have c2': "docker_log (snd (stop Map.empty docker_labelled tcm_owning)) =
         [Created sample_container, StopContainer sample_container]"
    by (simp add: tcm_owning_def)
  from b h2 h3 have c3: "container (snd (stop Map.empty docker_labelled tcm_owning)) = None" by blast
  from c h4 have c4: "container (snd (snd (start Map.empty docker_labelled tcm_init))) = container tcm_init"
    by blast
  then have c4': "container (snd (snd (start Map.empty docker_labelled tcm_init))) = None"
    by (simp add: tcm_init_def)
  from d h5 have c5: "container (snd (snd (start Map.empty docker_empty tcm_init))) = Some sample_container"
    by blast
  from a h6 have c6: "Created sample_container \<in> set (docker_log (snd (tcm_run Map.empty tcm_init ?r1)))"
    by blast
  from b h7 have c7: "Created sample_container \<in> set (docker_log (snd (tcm_run Map.empty tcm_init ?r2)))"
    by blast
  show ?thesis using h1 h2 h3 h4 h5 h6 h7 c1 c2' c3 c4' c5 c6 c7 by blast
qed




end
